theory Spec2Isabelle
  imports Main
begin

section \<open>Strings\<close>

text \<open>
  A JavaScript string is modelled as a \<^typ>\<open>string\<close>: a list of characters whose code
  units lie in \<open>0..255\<close> (the Latin-1 block of UTF-16). Numbers that the program only
  uses as array indices, digit counts and HTTP status codes are natural numbers.
\<close>

definition isDigit :: "char \<Rightarrow> bool" where
  \<comment> \<open>the complement of the regular expression class \<open>\D\<close>: the ten ASCII digits\<close>
  "isDigit c = (let n = (of_char c :: nat) in 48 \<le> n \<and> n \<le> 57)"

definition stripNonDigits :: "string \<Rightarrow> string" where
  \<comment> \<open>\<open>s.replace(/\D/g, '')\<close>\<close>
  "stripNonDigits s = filter isDigit s"

definition slice :: "string \<Rightarrow> nat \<Rightarrow> nat \<Rightarrow> string" where
  \<comment> \<open>\<open>s.slice(a, b)\<close> for non-negative \<open>a\<close> and \<open>b\<close>: both ends are clamped to the
      length, and the result is empty when the end does not lie after the start\<close>
  "slice s a b = take (b - a) (drop a s)"

definition toLowerCase_char :: "char \<Rightarrow> char" where
  \<comment> \<open>the lower-case mapping on code units \<open>0..255\<close>: \<open>A-Z\<close>, and the accented capitals
      \<open>U+00C0..U+00DE\<close> without the multiplication sign \<open>U+00D7\<close>\<close>
  "toLowerCase_char c =
     (let n = (of_char c :: nat)
      in if (65 \<le> n \<and> n \<le> 90) \<or> (192 \<le> n \<and> n \<le> 222 \<and> n \<noteq> 215)
         then char_of (n + 32) else c)"

definition toLowerCase :: "string \<Rightarrow> string" where
  "toLowerCase s = map toLowerCase_char s"

fun split :: "char \<Rightarrow> string \<Rightarrow> string list" where
  \<comment> \<open>\<open>s.split(sep)\<close> for a one-character separator: never an empty array, the empty
      string gives one empty part, and adjacent separators give empty parts\<close>
  "split sep [] = [[]]"
| "split sep (c # cs) =
     (let parts = split sep cs
      in if c = sep then [] # parts else (c # hd parts) # tl parts)"

definition digitChar :: "nat \<Rightarrow> char" where
  "digitChar d = char_of (48 + d)"

fun toString :: "nat \<Rightarrow> string" where
  \<comment> \<open>\<open>n.toString()\<close> and the interpolation of a non-negative integer: decimal digits\<close>
  "toString n = (if n < 10 then [digitChar n] else toString (n div 10) @ [digitChar (n mod 10)])"

declare toString.simps [simp del]

definition orElse :: "string option \<Rightarrow> string \<Rightarrow> string" where
  \<comment> \<open>\<open>x || d\<close> where \<open>x\<close> is a string or \<open>undefined\<close>: \<open>undefined\<close> and the empty string
      are falsy\<close>
  "orElse x d = (case x of None \<Rightarrow> d | Some s \<Rightarrow> if s = [] then d else s)"

definition at :: "'a list \<Rightarrow> int \<Rightarrow> 'a option" where
  \<comment> \<open>\<open>xs[i]\<close>: \<open>undefined\<close> outside the array\<close>
  "at xs i = (if 0 \<le> i \<and> nat i < length xs then Some (xs ! nat i) else None)"

section \<open>Data model\<close>

record raw_user =
  user_id :: int
  user_name :: string
  user_email :: string
  user_phone :: string
  user_website :: string
  user_company_name :: string

record student =
  student_id :: int
  name :: string
  course :: string
  year :: string
  email :: string
  phone :: string
  website :: string

section \<open>The transform of \<open>fetchStudents\<close>\<close>

definition courses :: "string list" where
  "courses =
     [''BS Computer Science'',
      ''BS Information Technology'',
      ''BS Business Administration'',
      ''BS Accountancy'',
      ''BS Nursing'',
      ''BS Psychology'',
      ''BS Civil Engineering'',
      ''BS Electrical Engineering'',
      ''BS Architecture'',
      ''AB Communication'']"

definition phoneDigits :: "raw_user \<Rightarrow> string" where
  "phoneDigits user = slice (stripNonDigits (user_phone user)) 0 10"

definition formattedPhone :: "raw_user \<Rightarrow> string" where
  "formattedPhone user =
     ''+63 '' @ slice (phoneDigits user) 0 3 @ '' '' @ slice (phoneDigits user) 3 6
       @ '' '' @ slice (phoneDigits user) 6 10"

definition nameParts :: "raw_user \<Rightarrow> string list" where
  "nameParts user = split (CHR '' '') (toLowerCase (user_name user))"

definition firstName :: "raw_user \<Rightarrow> string" where
  "firstName user = orElse (at (nameParts user) 0) ''student''"

definition lastName :: "raw_user \<Rightarrow> string" where
  "lastName user = orElse (at (nameParts user) (int (length (nameParts user)) - 1)) ''user''"

definition studentEmail :: "raw_user \<Rightarrow> string" where
  "studentEmail user = firstName user @ ''.'' @ lastName user @ ''@student.edu.ph''"

definition phWebsite :: "raw_user \<Rightarrow> string" where
  "phWebsite user = firstName user @ ''-'' @ lastName user @ ''.edu.ph''"

definition yearLevel :: "nat \<Rightarrow> string" where
  "yearLevel index = toString ((index mod 4) + 1)"

definition toStudent :: "raw_user \<Rightarrow> nat \<Rightarrow> student" where
  \<comment> \<open>the callback of \<open>response.data.map((user, index) => ...)\<close>\<close>
  "toStudent user index =
     \<lparr> student_id = user_id user,
       name = user_name user,
       course = courses ! (index mod length courses),
       year = yearLevel index,
       email = studentEmail user,
       phone = formattedPhone user,
       website = phWebsite user \<rparr>"

fun mapIndexed :: "('a \<Rightarrow> nat \<Rightarrow> 'b) \<Rightarrow> nat \<Rightarrow> 'a list \<Rightarrow> 'b list" where
  \<comment> \<open>\<open>Array.prototype.map\<close> with the two-argument callback, counting from \<open>k\<close>\<close>
  "mapIndexed f k [] = []"
| "mapIndexed f k (x # xs) = f x k # mapIndexed f (Suc k) xs"

definition transform :: "raw_user list \<Rightarrow> student list" where
  "transform users = mapIndexed toStudent 0 users"

section \<open>The fetch client\<close>

text \<open>
  The one effect of \<open>fetchStudents\<close> is the awaited \<open>axiosInstance.get\<close>. Its outcome is
  the input of the model: the promise resolves with a response whose \<open>data\<close> is the array
  of raw users, or it rejects with an error object. Of the error object the handler reads
  \<open>code\<close>, \<open>response\<close> (and its \<open>status\<close>) and \<open>request\<close>; an absent property is \<open>None\<close>,
  and an object that is present is truthy. The raw users have strings for \<open>name\<close> and
  \<open>phone\<close>, so the callback of the transform raises nothing; what \<open>try\<close> can throw is
  the rejection.
\<close>

record axios_response =
  status :: nat

record axios_error =
  code :: "string option"
  response :: "axios_response option"
  request :: "unit option"

datatype axios_result = Resolved "raw_user list" | Rejected axios_error

datatype fetch_result =
    StudentsArray "student list"
  | ErrorObject bool string  \<comment> \<open>the object literal \<open>{ error: ..., message: ... }\<close>\<close>

datatype 'a completion = Returned 'a | Thrown axios_error

definition tryBlock :: "axios_result \<Rightarrow> student list completion" where
  \<comment> \<open>the body of \<open>try\<close>: the \<open>await\<close> rethrows a rejection, a response is transformed\<close>
  "tryBlock r = (case r of Rejected error \<Rightarrow> Thrown error
                         | Resolved users \<Rightarrow> Returned (transform users))"

definition errorMessage :: "axios_error \<Rightarrow> string" where
  \<comment> \<open>the variable \<open>errorMessage\<close> after the \<open>if\<close> chain of the \<open>catch\<close> block\<close>
  "errorMessage error =
     (let errorMessage = ''Failed to fetch students''
      in if code error = Some ''ECONNABORTED'' then ''Request timeout - please try again''
         else if response error \<noteq> None
              then ''Server error: '' @ toString (status (the (response error)))
         else if request error \<noteq> None then ''Network error - please check your connection''
         else errorMessage)"

definition catchBlock :: "axios_error \<Rightarrow> fetch_result completion" where
  "catchBlock error = Returned (ErrorObject True (errorMessage error))"

definition fetchStudents :: "axios_result \<Rightarrow> fetch_result completion" where
  "fetchStudents r = (case tryBlock r of Returned students \<Rightarrow> Returned (StudentsArray students)
                                       | Thrown error \<Rightarrow> catchBlock error)"

section \<open>The students page\<close>

text \<open>
  The three refs of \<open>StudentsPage\<close>. The ref \<open>students\<close> holds whatever \<open>fetchStudents\<close>
  returned in the branch that stores it; \<open>error\<close> holds \<open>null\<close> (\<open>None\<close>) or a string.
\<close>

record page_state =
  students :: fetch_result
  loading :: bool
  error :: "string option"

definition initialRefs :: page_state where
  \<comment> \<open>the refs as the component creates them\<close>
  "initialRefs = \<lparr> students = StudentsArray [], loading = False, error = None \<rparr>"

definition result_error :: "fetch_result \<Rightarrow> bool option" where
  \<comment> \<open>\<open>result.error\<close>: an array has no such property\<close>
  "result_error result = (case result of StudentsArray _ \<Rightarrow> None | ErrorObject e _ \<Rightarrow> Some e)"

definition result_message :: "fetch_result \<Rightarrow> string option" where
  \<comment> \<open>\<open>result.message\<close>\<close>
  "result_message result = (case result of StudentsArray _ \<Rightarrow> None | ErrorObject _ m \<Rightarrow> Some m)"

definition truthy :: "bool option \<Rightarrow> bool" where
  "truthy v = (v = Some True)"

definition truthyString :: "string option \<Rightarrow> bool" where
  \<comment> \<open>\<open>null\<close> and the empty string are falsy\<close>
  "truthyString v = (case v of None \<Rightarrow> False | Some m \<Rightarrow> m \<noteq> [])"

definition onMounted_begin :: "page_state \<Rightarrow> page_state" where
  \<comment> \<open>the hook up to its \<open>await\<close>: the fetch is issued in the state this returns\<close>
  "onMounted_begin s = s\<lparr> loading := True, error := None \<rparr>"

definition onMounted_resume :: "page_state \<Rightarrow> fetch_result completion \<Rightarrow> page_state" where
  \<comment> \<open>the hook after its \<open>await\<close>: \<open>try\<close>, \<open>catch\<close>, and \<open>finally\<close> last\<close>
  "onMounted_resume s c =
     (let s' = (case c of
                  Returned result \<Rightarrow>
                    if truthy (result_error result) then s\<lparr> error := result_message result \<rparr>
                    else s\<lparr> students := result \<rparr>
                | Thrown err \<Rightarrow> s\<lparr> error := Some ''An unexpected error occurred'' \<rparr>)
      in s'\<lparr> loading := False \<rparr>)"

datatype view =
    LoadingView                \<comment> \<open>\<open>div.loading\<close>\<close>
  | ErrorView string           \<comment> \<open>\<open>div.error\<close> with the interpolated \<open>error\<close>\<close>
  | ListView fetch_result      \<comment> \<open>\<open>div.students-list\<close>, one card per element of \<open>students\<close>\<close>

definition render :: "page_state \<Rightarrow> view" where
  \<comment> \<open>the \<open>v-if\<close> / \<open>v-else-if\<close> / \<open>v-else\<close> chain of the template\<close>
  "render s =
     (if loading s then LoadingView
      else if truthyString (error s) then ErrorView (the (error s))
      else ListView (students s))"

inductive reachable :: "page_state \<Rightarrow> bool" where
  created: "reachable initialRefs"
| pending: "reachable (onMounted_begin initialRefs)"
| settled: "reachable (onMounted_resume (onMounted_begin initialRefs) (fetchStudents r))"

section \<open>Concrete inputs\<close>

text \<open>The mocked users and errors of the test suite, and further inputs used below.\<close>

definition mockUsers :: "raw_user list" where
  "mockUsers =
     [\<lparr> user_id = 1, user_name = ''Leanne Graham'', user_email = ''Sincere@april.biz'',
        user_phone = ''1-770-736-8031 x56442'', user_website = ''hildegard.org'',
        user_company_name = ''Romaguera-Crona'' \<rparr>,
      \<lparr> user_id = 2, user_name = ''Ervin Howell'', user_email = ''Shanna@melissa.tv'',
        user_phone = ''010-692-6593 x09125'', user_website = ''anastasia.net'',
        user_company_name = ''Deckow-Crist'' \<rparr>]"

definition timeoutError :: axios_error where
  "timeoutError = \<lparr> code = Some ''ECONNABORTED'', response = None, request = None \<rparr>"

definition serverError :: axios_error where
  "serverError = \<lparr> code = None, response = Some \<lparr> status = 404 \<rparr>, request = None \<rparr>"

definition networkError :: axios_error where
  "networkError = \<lparr> code = None, response = None, request = Some () \<rparr>"

definition singleNameUser :: raw_user where
  "singleNameUser =
     \<lparr> user_id = 3, user_name = ''Alice'', user_email = ''alice@example.com'',
       user_phone = ''12-34'', user_website = ''example.com'',
       user_company_name = ''Example'' \<rparr>"

definition timeoutWithResponse :: axios_error where
  "timeoutWithResponse =
     \<lparr> code = Some ''ECONNABORTED'', response = Some \<lparr> status = 504 \<rparr>, request = Some () \<rparr>"

definition serverErrorWithRequest :: axios_error where
  "serverErrorWithRequest =
     \<lparr> code = Some ''ERR_BAD_RESPONSE'', response = Some \<lparr> status = 500 \<rparr>, request = Some () \<rparr>"

definition typeError :: axios_error where
  "typeError = \<lparr> code = None, response = None, request = None \<rparr>"

section \<open>The name rule as the specification words it\<close>

text \<open>
  The specification describes the name parts by the number of tokens: the first token,
  or \<open>student\<close> without tokens; the last token, or \<open>user\<close> with at most one token.
  These two definitions follow that wording, for comparison with \<open>firstName\<close> and
  \<open>lastName\<close> above.
\<close>

definition spec_firstName :: "string \<Rightarrow> string" where
  "spec_firstName n =
     (case split (CHR '' '') n of [] \<Rightarrow> ''student'' | t # _ \<Rightarrow> toLowerCase t)"

definition spec_lastName :: "string \<Rightarrow> string" where
  "spec_lastName n =
     (let tokens = split (CHR '' '') n
      in if length tokens \<le> 1 then ''user'' else toLowerCase (last tokens))"

section \<open>Auxiliary facts\<close>

lemma split_not_Nil: "split sep s \<noteq> []"
  by (induction s) (auto simp: Let_def)

lemma char_is_space: "(c = CHR '' '') = ((of_char c :: nat) = 32)"
  using of_char_eq_iff [of c "CHR '' ''", where ?'a = nat] by simp

lemma toLowerCase_char_space: "(toLowerCase_char c = CHR '' '') = (c = CHR '' '')"
  unfolding char_is_space [of c] char_is_space [of "toLowerCase_char c"]
  by (auto simp: toLowerCase_char_def Let_def)

lemma split_map:
  assumes "\<And>c. (f c = sep) = (c = sep)"
  shows "split sep (map f s) = map (map f) (split sep s)"
  using assms split_not_Nil by (induction s) (auto simp: Let_def hd_map map_tl)

lemma nameParts_tokens:
  "nameParts user = map toLowerCase (split (CHR '' '') (user_name user))"
proof -
  have "split (CHR '' '') (map toLowerCase_char (user_name user))
        = map (map toLowerCase_char) (split (CHR '' '') (user_name user))"
    by (rule split_map) (rule toLowerCase_char_space)
  then show ?thesis
    unfolding nameParts_def toLowerCase_def [abs_def] .
qed

lemma at_first: "xs \<noteq> [] \<Longrightarrow> at xs 0 = Some (hd xs)"
  by (cases xs) (simp_all add: at_def)

lemma at_last: "xs \<noteq> [] \<Longrightarrow> at xs (int (length xs) - 1) = Some (last xs)"
  by (cases xs rule: rev_cases) (simp_all add: at_def nth_append)

lemma firstName_token:
  "firstName user =
     (let tokens = split (CHR '' '') (user_name user)
      in if hd tokens = [] then ''student'' else toLowerCase (hd tokens))"
proof -
  let ?ts = "split (CHR '' '') (user_name user)"
  have ne: "?ts \<noteq> []" by (rule split_not_Nil)
  then have "at (nameParts user) 0 = Some (toLowerCase (hd ?ts))"
    by (simp add: nameParts_tokens at_first hd_map)
  then show ?thesis
    by (simp add: firstName_def orElse_def toLowerCase_def)
qed

lemma lastName_token:
  "lastName user =
     (let tokens = split (CHR '' '') (user_name user)
      in if last tokens = [] then ''user'' else toLowerCase (last tokens))"
proof -
  let ?ts = "split (CHR '' '') (user_name user)"
  have ne: "?ts \<noteq> []" by (rule split_not_Nil)
  then have "map toLowerCase ?ts \<noteq> []" by simp
  then have "at (map toLowerCase ?ts) (int (length (map toLowerCase ?ts)) - 1)
             = Some (last (map toLowerCase ?ts))"
    by (rule at_last)
  with ne have "at (nameParts user) (int (length (nameParts user)) - 1)
                = Some (toLowerCase (last ?ts))"
    by (simp add: nameParts_tokens last_map)
  then show ?thesis
    by (simp add: lastName_def orElse_def toLowerCase_def)
qed

lemma mapIndexed_length: "length (mapIndexed f k xs) = length xs"
  by (induction xs arbitrary: k) auto

lemma mapIndexed_nth: "i < length xs \<Longrightarrow> mapIndexed f k xs ! i = f (xs ! i) (k + i)"
  by (induction xs arbitrary: k i) (auto simp: nth_Cons split: nat.splits)

lemma transform_length: "length (transform users) = length users"
  by (simp add: transform_def mapIndexed_length)

lemma transform_nth: "i < length users \<Longrightarrow> transform users ! i = toStudent (users ! i) i"
  by (simp add: transform_def mapIndexed_nth)

lemma toString_digit: "n < 10 \<Longrightarrow> toString n = [digitChar n]"
  by (simp add: toString.simps)

lemma toString_1: "toString 1 = ''1''" by code_simp

lemma toString_2: "toString 2 = ''2''" by code_simp

lemma toString_3: "toString 3 = ''3''" by code_simp

lemma toString_4: "toString 4 = ''4''" by code_simp

lemma yearLevel_by_cases:
  "yearLevel i = (if i mod 4 = 0 then ''1'' else if i mod 4 = 1 then ''2''
                  else if i mod 4 = 2 then ''3'' else ''4'')"
proof -
  consider "i mod 4 = 0" | "i mod 4 = 1" | "i mod 4 = 2" | "i mod 4 = 3" by arith
  then show ?thesis
  proof cases
    case 1
    then have "i mod 4 + 1 = 1" by simp
    with 1 show ?thesis unfolding yearLevel_def by (simp only: toString_1) simp
  next
    case 2
    then have "i mod 4 + 1 = 2" by simp
    with 2 show ?thesis unfolding yearLevel_def by (simp only: toString_2) simp
  next
    case 3
    then have "i mod 4 + 1 = 3" by simp
    with 3 show ?thesis unfolding yearLevel_def by (simp only: toString_3) simp
  next
    case 4
    then have "i mod 4 + 1 = 4" by simp
    with 4 show ?thesis unfolding yearLevel_def by (simp only: toString_4) simp
  qed
qed

lemma yearLevel_values: "yearLevel i \<in> {''1'', ''2'', ''3'', ''4''}"
  by (simp add: yearLevel_by_cases)

lemma length_courses: "length courses = 10"
  by (simp add: courses_def)

lemma distinct_courses: "distinct courses"
  by (simp add: courses_def)

lemma isDigit_space: "\<not> isDigit (CHR '' '')"
  by (simp add: isDigit_def)

lemma fetchStudents_Resolved:
  "fetchStudents (Resolved users) = Returned (StudentsArray (transform users))"
  by (simp add: fetchStudents_def tryBlock_def)

lemma fetchStudents_Rejected:
  "fetchStudents (Rejected e) = Returned (ErrorObject True (errorMessage e))"
  by (simp add: fetchStudents_def tryBlock_def catchBlock_def)

lemma errorMessage_not_empty: "errorMessage e \<noteq> []"
  by (simp add: errorMessage_def Let_def)

lemma phoneDigits_eq: "phoneDigits user = take 10 (filter isDigit (user_phone user))"
  by (simp add: phoneDigits_def slice_def stripNonDigits_def)

lemma formattedPhone_eq:
  "formattedPhone user =
     ''+63 '' @ take 3 (phoneDigits user) @ '' '' @ take 3 (drop 3 (phoneDigits user))
       @ '' '' @ take 4 (drop 6 (phoneDigits user))"
  by (simp add: formattedPhone_def slice_def)

lemma filter_isDigit_groups:
  assumes "ds = filter isDigit s"
  shows "filter isDigit (take 3 ds @ '' '' @ take 3 (drop 3 ds) @ '' '' @ drop 6 ds) = ds"
proof -
  have all: "\<forall>c \<in> set ds. isDigit c" using assms by simp
  have a: "filter isDigit (take 3 ds) = take 3 ds"
    using all by (auto simp: filter_id_conv dest: in_set_takeD)
  have b: "filter isDigit (take 3 (drop 3 ds)) = take 3 (drop 3 ds)"
    using all by (auto simp: filter_id_conv dest!: in_set_takeD in_set_dropD)
  have c: "filter isDigit (drop 6 ds) = drop 6 ds"
    using all by (auto simp: filter_id_conv dest: in_set_dropD)
  have "take 3 (drop 3 ds) @ drop 6 ds = drop 3 ds"
    using append_take_drop_id [of 3 "drop 3 ds"] by simp
  then have "take 3 ds @ take 3 (drop 3 ds) @ drop 6 ds = ds"
    by simp
  then show ?thesis
    by (simp add: a b c isDigit_space)
qed

lemma toString_404: "toString 404 = ''404''" by code_simp

lemma toString_500: "toString 500 = ''500''" by code_simp

lemma resume_Resolved:
  "onMounted_resume s (fetchStudents (Resolved users))
     = s\<lparr> students := StudentsArray (transform users), loading := False \<rparr>"
  by (simp add: fetchStudents_Resolved onMounted_resume_def result_error_def truthy_def)

lemma resume_Rejected:
  "onMounted_resume s (fetchStudents (Rejected e))
     = s\<lparr> error := Some (errorMessage e), loading := False \<rparr>"
  by (simp add: fetchStudents_Rejected onMounted_resume_def result_error_def truthy_def
      result_message_def)

lemma reachable_refs:
  assumes "reachable s"
  shows "(loading s \<longrightarrow> error s = None \<and> students s = StudentsArray []) \<and>
         (error s \<noteq> None \<longrightarrow>
            \<not> loading s \<and> truthyString (error s) \<and> students s = StudentsArray [])"
  using assms
proof cases
  case created
  then show ?thesis by (simp add: initialRefs_def)
next
  case pending
  then show ?thesis by (simp add: onMounted_begin_def initialRefs_def)
next
  case (settled r)
  then show ?thesis
    by (cases r)
      (simp_all add: resume_Resolved resume_Rejected onMounted_begin_def initialRefs_def
        truthyString_def errorMessage_not_empty)
qed

section \<open>Properties\<close>

subsection \<open>The fetch client: failures\<close>

text \<open>
  C1. A rejected request never leaves \<open>fetchStudents\<close> as an exception: the function returns
  the object with \<open>error = true\<close> and a message. The message is chosen in this order: the
  code \<open>ECONNABORTED\<close> gives the timeout message, whatever else the error carries;
  otherwise a response gives \<open>Server error:\<close> followed by the decimal status; otherwise a
  request without response gives the network message; otherwise the message is
  \<open>Failed to fetch students\<close>.
\<close>

theorem C1_failure_messages:
  "fetchStudents (Rejected e) = Returned (ErrorObject True (errorMessage e)) \<and>
   (code e = Some ''ECONNABORTED'' \<longrightarrow>
      errorMessage e = ''Request timeout - please try again'') \<and>
   (code e \<noteq> Some ''ECONNABORTED'' \<and> response e = Some r \<longrightarrow>
      errorMessage e = ''Server error: '' @ toString (status r)) \<and>
   (code e \<noteq> Some ''ECONNABORTED'' \<and> response e = None \<and> request e \<noteq> None \<longrightarrow>
      errorMessage e = ''Network error - please check your connection'') \<and>
   (code e \<noteq> Some ''ECONNABORTED'' \<and> response e = None \<and> request e = None \<longrightarrow>
      errorMessage e = ''Failed to fetch students'')"
  by (simp add: fetchStudents_Rejected errorMessage_def Let_def)

text \<open>
  The messages of C1 at the errors of the test suite, at a timeout that also carries a
  response and a request, at a server error that also carries a request, and at an error
  without any of the three properties.
\<close>

theorem C1_failure_messages_witness:
  "fetchStudents (Rejected timeoutError)
     = Returned (ErrorObject True ''Request timeout - please try again'') \<and>
   fetchStudents (Rejected timeoutWithResponse)
     = Returned (ErrorObject True ''Request timeout - please try again'') \<and>
   fetchStudents (Rejected serverError) = Returned (ErrorObject True ''Server error: 404'') \<and>
   fetchStudents (Rejected serverErrorWithRequest)
     = Returned (ErrorObject True ''Server error: 500'') \<and>
   fetchStudents (Rejected networkError)
     = Returned (ErrorObject True ''Network error - please check your connection'') \<and>
   fetchStudents (Rejected typeError) = Returned (ErrorObject True ''Failed to fetch students'')"
  using C1_failure_messages [of timeoutError]
    C1_failure_messages [of timeoutWithResponse]
    C1_failure_messages [of serverError "\<lparr> status = 404 \<rparr>"]
    C1_failure_messages [of serverErrorWithRequest "\<lparr> status = 500 \<rparr>"]
    C1_failure_messages [of networkError]
    C1_failure_messages [of typeError]
  by (simp add: timeoutError_def timeoutWithResponse_def serverError_def
      serverErrorWithRequest_def networkError_def typeError_def toString_404 toString_500)

subsection \<open>The transform\<close>

text \<open>
  C2. The two mocked users of the test suite are transformed into a first student of
  course \<open>BS Computer Science\<close> and year \<open>1\<close> and a second student of course
  \<open>BS Information Technology\<close> and year \<open>2\<close>, with the e-mail addresses and websites
  built from their lower-cased names.
\<close>

theorem C2_mock_users:
  "course (transform mockUsers ! 0) = ''BS Computer Science'' \<and>
   year (transform mockUsers ! 0) = ''1'' \<and>
   email (transform mockUsers ! 0) = ''leanne.graham@student.edu.ph'' \<and>
   website (transform mockUsers ! 0) = ''leanne-graham.edu.ph'' \<and>
   course (transform mockUsers ! 1) = ''BS Information Technology'' \<and>
   year (transform mockUsers ! 1) = ''2'' \<and>
   email (transform mockUsers ! 1) = ''ervin.howell@student.edu.ph'' \<and>
   website (transform mockUsers ! 1) = ''ervin-howell.edu.ph'' \<and>
   length (transform mockUsers) = 2"
  by (intro conjI; code_simp)

text \<open>
  C3. At every position \<open>i\<close> the year is the decimal form of \<open>i mod 4 + 1\<close>, one of the four
  strings \<open>1\<close> to \<open>4\<close>, and the course is entry \<open>i mod 10\<close> of the list of ten distinct
  courses; two input sequences give the same year and course at the same position.
\<close>

theorem C3_year_and_course_by_position:
  assumes "i < length users" and "i < length users'"
  shows "year (transform users ! i) = toString (i mod 4 + 1) \<and>
         year (transform users ! i) \<in> {''1'', ''2'', ''3'', ''4''} \<and>
         course (transform users ! i) = courses ! (i mod 10) \<and>
         course (transform users ! i) \<in> set courses \<and>
         length courses = 10 \<and> distinct courses \<and>
         year (transform users' ! i) = year (transform users ! i) \<and>
         course (transform users' ! i) = course (transform users ! i)"
proof -
  have "i mod 10 < length courses" by (simp add: length_courses)
  then have "courses ! (i mod 10) \<in> set courses" by (rule nth_mem)
  moreover have "yearLevel i = toString (i mod 4 + 1)" by (simp add: yearLevel_def)
  moreover note yearLevel_values [of i]
  ultimately show ?thesis
    using assms by (simp add: transform_nth toStudent_def length_courses distinct_courses)
qed

text \<open>
  C3 at position 1 of the mocked users and of a second sequence.
\<close>

theorem C3_year_and_course_by_position_witness:
  "1 < length mockUsers \<and> 1 < length [singleNameUser, singleNameUser] \<and>
   year (transform mockUsers ! 1) = ''2'' \<and>
   course (transform mockUsers ! 1) = ''BS Information Technology'' \<and>
   year (transform [singleNameUser, singleNameUser] ! 1) = year (transform mockUsers ! 1) \<and>
   course (transform [singleNameUser, singleNameUser] ! 1) = course (transform mockUsers ! 1)"
proof -
  have h: "1 < length mockUsers" by (simp add: mockUsers_def)
  have h': "1 < length [singleNameUser, singleNameUser]" by simp
  have c: "courses ! (1 mod 10) = ''BS Information Technology''" by (simp add: courses_def)
  have y: "toString (Suc (Suc 0)) = ''2''" using toString_2 by (simp add: numeral_2_eq_2)
  show ?thesis
    using C3_year_and_course_by_position [OF h h'] h c y by simp
qed

text \<open>
  C4, on a name of one token. For the name \<open>Alice\<close> the specification's wording gives the
  last name \<open>user\<close>; the program takes the only token for both parts and produces
  \<open>alice.alice@student.edu.ph\<close>.
\<close>

theorem C4_single_token_counterexample:
  "length (split (CHR '' '') (user_name singleNameUser)) = 1 \<and>
   spec_lastName (user_name singleNameUser) = ''user'' \<and>
   lastName singleNameUser = ''alice'' \<and>
   email (transform [singleNameUser] ! 0) = ''alice.alice@student.edu.ph'' \<and>
   email (transform [singleNameUser] ! 0)
     \<noteq> spec_firstName (user_name singleNameUser) @ ''.''
         @ spec_lastName (user_name singleNameUser) @ ''@student.edu.ph''"
  by (intro conjI; code_simp)

text \<open>
  C4, as the program computes the name parts. Splitting the name on spaces always gives at
  least one part, and parts may be empty. The first name is the first part lower-cased, or
  \<open>student\<close> when that part is empty; the last name is the last part lower-cased, or
  \<open>user\<close> when that part is empty. A name that is one non-empty token has equal first and
  last names. The e-mail address is \<open>first.last@student.edu.ph\<close> and the website is
  \<open>first-last.edu.ph\<close>.
\<close>

theorem C4_name_parts:
  assumes "i < length users"
  shows "let tokens = split (CHR '' '') (user_name (users ! i));
             f = (if hd tokens = [] then ''student'' else toLowerCase (hd tokens));
             l = (if last tokens = [] then ''user'' else toLowerCase (last tokens))
         in tokens \<noteq> [] \<and>
            email (transform users ! i) = f @ ''.'' @ l @ ''@student.edu.ph'' \<and>
            website (transform users ! i) = f @ ''-'' @ l @ ''.edu.ph'' \<and>
            (length tokens = 1 \<and> hd tokens \<noteq> [] \<longrightarrow> f = l)"
proof -
  let ?ts = "split (CHR '' '') (user_name (users ! i))"
  have ne: "?ts \<noteq> []" by (rule split_not_Nil)
  have single: "length ?ts = 1 \<longrightarrow> hd ?ts = last ?ts"
    by (cases ?ts) simp_all
  have e: "email (transform users ! i)
           = firstName (users ! i) @ ''.'' @ lastName (users ! i) @ ''@student.edu.ph''"
    using assms by (simp add: transform_nth toStudent_def studentEmail_def)
  have w: "website (transform users ! i)
           = firstName (users ! i) @ ''-'' @ lastName (users ! i) @ ''.edu.ph''"
    using assms by (simp add: transform_nth toStudent_def phWebsite_def)
  show ?thesis
    unfolding e w firstName_token lastName_token Let_def
    using ne single by auto
qed

text \<open>
  C4 at the one-token name \<open>Alice\<close>.
\<close>

theorem C4_name_parts_witness:
  "0 < length [singleNameUser] \<and>
   length (split (CHR '' '') (user_name singleNameUser)) = 1 \<and>
   hd (split (CHR '' '') (user_name singleNameUser)) \<noteq> [] \<and>
   email (transform [singleNameUser] ! 0) = ''alice.alice@student.edu.ph'' \<and>
   website (transform [singleNameUser] ! 0) = ''alice-alice.edu.ph''"
proof -
  have h: "0 < length [singleNameUser]" by simp
  have t: "split (CHR '' '') (user_name singleNameUser) = [''Alice'']" by code_simp
  have l: "toLowerCase ''Alice'' = ''alice''" by code_simp
  show ?thesis
    using C4_name_parts [OF h] by (simp add: t l Let_def)
qed

text \<open>
  C5. A successful \<open>fetchStudents\<close> returns the transformed array; it has as many students
  as there are raw users, and the student at position \<open>i\<close> is the function \<open>toStudent\<close> of
  the raw user at position \<open>i\<close> and of \<open>i\<close> alone.
\<close>

theorem C5_length_and_order:
  "length (transform users) = length users \<and>
   (i < length users \<longrightarrow> transform users ! i = toStudent (users ! i) i) \<and>
   fetchStudents (Resolved users) = Returned (StudentsArray (transform users))"
  by (simp add: transform_length transform_nth fetchStudents_Resolved)

text \<open>
  C5 at the mocked users and position 1.
\<close>

theorem C5_length_and_order_witness:
  "length (transform mockUsers) = 2 \<and> 1 < length mockUsers \<and>
   transform mockUsers ! 1 = toStudent (mockUsers ! 1) 1 \<and>
   fetchStudents (Resolved mockUsers) = Returned (StudentsArray (transform mockUsers))"
proof -
  have h: "1 < length mockUsers" by (simp add: mockUsers_def)
  have l: "length mockUsers = 2" by (simp add: mockUsers_def)
  show ?thesis
    using C5_length_and_order [of mockUsers 1] h l by simp
qed

text \<open>
  C6. When the raw phone has at least ten digits, the phone of the student is \<open>+63\<close>, a
  space, and the first ten digits in groups of three, three and four separated by single
  spaces: sixteen characters in all.
\<close>

theorem C6_phone_of_ten_digits:
  assumes "i < length users"
    and "10 \<le> length (filter isDigit (user_phone (users ! i)))"
  shows "let d = take 10 (filter isDigit (user_phone (users ! i)))
         in phone (transform users ! i)
              = ''+63 '' @ take 3 d @ '' '' @ take 3 (drop 3 d) @ '' '' @ take 4 (drop 6 d) \<and>
            length (take 3 d) = 3 \<and> length (take 3 (drop 3 d)) = 3 \<and>
            length (take 4 (drop 6 d)) = 4 \<and> list_all isDigit d \<and>
            length (phone (transform users ! i)) = 16"
proof -
  let ?d = "take 10 (filter isDigit (user_phone (users ! i)))"
  have len: "length ?d = 10" using assms(2) by simp
  have "set ?d \<subseteq> set (filter isDigit (user_phone (users ! i)))" by (rule set_take_subset)
  then have digits: "list_all isDigit ?d" by (auto simp: list_all_iff)
  have p: "phone (transform users ! i)
           = ''+63 '' @ take 3 ?d @ '' '' @ take 3 (drop 3 ?d) @ '' '' @ take 4 (drop 6 ?d)"
    using assms(1) by (simp add: transform_nth toStudent_def formattedPhone_eq phoneDigits_eq)
  have "length (phone (transform users ! i)) = 16"
    unfolding p using len by simp
  with p len digits show ?thesis
    unfolding Let_def by simp
qed

text \<open>
  C6 at the first mocked user, whose phone has sixteen digits.
\<close>

theorem C6_phone_of_ten_digits_witness:
  "0 < length mockUsers \<and>
   10 \<le> length (filter isDigit (user_phone (mockUsers ! 0))) \<and>
   phone (transform mockUsers ! 0) = ''+63 177 073 6803''"
proof -
  have h: "0 < length mockUsers" by (simp add: mockUsers_def)
  have d: "filter isDigit (user_phone (mockUsers ! 0)) = ''1770736803156442''" by code_simp
  have n: "10 \<le> length (filter isDigit (user_phone (mockUsers ! 0)))" by (simp add: d)
  show ?thesis
    using C6_phone_of_ten_digits [OF h n] h n by (simp add: d Let_def)
qed

text \<open>
  C8. The transform copies \<open>id\<close> and \<open>name\<close> of every raw user into the student at the same
  position, unchanged.
\<close>

theorem C8_id_and_name_pass_through:
  assumes "i < length users"
  shows "student_id (transform users ! i) = user_id (users ! i) \<and>
         name (transform users ! i) = user_name (users ! i)"
  using assms by (simp add: transform_nth toStudent_def)

text \<open>
  C8 at the first mocked user.
\<close>

theorem C8_id_and_name_pass_through_witness:
  "0 < length mockUsers \<and>
   student_id (transform mockUsers ! 0) = 1 \<and>
   name (transform mockUsers ! 0) = ''Leanne Graham''"
proof -
  have h: "0 < length mockUsers" by (simp add: mockUsers_def)
  show ?thesis
    using C8_id_and_name_pass_through [OF h] h by (simp add: mockUsers_def)
qed

text \<open>
  C10. When the raw phone has \<open>d < 10\<close> digits the transform still returns a student. Its
  phone is \<open>+63\<close>, a space, the first \<open>min d 3\<close> digits, a space, the next
  \<open>min (max (d - 3) 0) 3\<close> digits, a space and the remaining digits: after the prefix it
  holds exactly the digits of the raw phone in their order, it is \<open>6 + d\<close> characters long,
  and for \<open>d = 0\<close> it is \<open>+63\<close> followed by three spaces.
\<close>

theorem C10_phone_of_fewer_digits:
  assumes "i < length users"
    and "length (filter isDigit (user_phone (users ! i))) < 10"
  shows "let ds = filter isDigit (user_phone (users ! i));
             d = length ds;
             p = phone (transform users ! i)
         in p = ''+63 '' @ take (min d 3) ds @ '' ''
                  @ take (min (max (d - 3) 0) 3) (drop 3 ds) @ '' '' @ drop 6 ds \<and>
            take 4 p = ''+63 '' \<and>
            filter isDigit (drop 4 p) = ds \<and>
            length p = 6 + d \<and>
            (d = 0 \<longrightarrow> p = ''+63   '') \<and>
            fetchStudents (Resolved users) = Returned (StudentsArray (transform users))"
proof -
  let ?ds = "filter isDigit (user_phone (users ! i))"
  let ?p = "phone (transform users ! i)"
  have pd: "phoneDigits (users ! i) = ?ds"
    using assms(2) by (simp add: phoneDigits_eq)
  have last_group: "take 4 (drop 6 ?ds) = drop 6 ?ds"
    using assms(2) by simp
  have p: "?p = ''+63 '' @ take 3 ?ds @ '' '' @ take 3 (drop 3 ?ds) @ '' '' @ drop 6 ?ds"
    using assms(1) last_group
    by (simp add: transform_nth toStudent_def formattedPhone_eq pd)
  have g1: "take (min (length ?ds) 3) ?ds = take 3 ?ds"
    by (simp add: min_def)
  have g2: "take (min (max (length ?ds - 3) 0) 3) (drop 3 ?ds) = take 3 (drop 3 ?ds)"
    by (simp add: min_def)
  have digits: "filter isDigit (drop 4 ?p) = ?ds"
    unfolding p using filter_isDigit_groups [of ?ds "user_phone (users ! i)"] by simp
  have "take 3 (drop 3 ?ds) @ drop 6 ?ds = drop 3 ?ds"
    using append_take_drop_id [of 3 "drop 3 ?ds"] by simp
  then have "length (take 3 (drop 3 ?ds)) + length (drop 6 ?ds) = length (drop 3 ?ds)"
    by (metis length_append)
  moreover have "length (take 3 ?ds) + length (drop 3 ?ds) = length ?ds"
    by (metis append_take_drop_id length_append)
  ultimately have len: "length ?p = 6 + length ?ds"
    unfolding p by simp
  have empty: "length ?ds = 0 \<longrightarrow> ?p = ''+63   ''"
    unfolding p by simp
  show ?thesis
    unfolding Let_def g1 g2
    using p digits len empty by (simp add: fetchStudents_Resolved)
qed

text \<open>
  C10 at a phone with the four digits \<open>1234\<close>.
\<close>

theorem C10_phone_of_fewer_digits_witness:
  "0 < length [singleNameUser] \<and>
   length (filter isDigit (user_phone ([singleNameUser] ! 0))) < 10 \<and>
   phone (transform [singleNameUser] ! 0) = ''+63 123 4 ''"
proof -
  have h: "0 < length [singleNameUser]" by simp
  have d: "filter isDigit (user_phone singleNameUser) = ''1234''" by code_simp
  have n: "length (filter isDigit (user_phone ([singleNameUser] ! 0))) < 10" by (simp add: d)
  show ?thesis
    using C10_phone_of_fewer_digits [OF h n] n by (simp add: d Let_def)
qed

subsection \<open>The students page\<close>

text \<open>
  C7, on the start state. The component creates \<open>loading\<close> as \<open>false\<close>: the state the page
  starts in is reachable, is not loading, and renders the empty list, not the loading
  indicator.
\<close>

theorem C7_start_state_counterexample:
  "reachable initialRefs \<and> \<not> loading initialRefs \<and>
   render initialRefs = ListView (StudentsArray []) \<and>
   render initialRefs \<noteq> LoadingView"
proof -
  have "reachable initialRefs" by (rule reachable.created)
  moreover have "\<not> loading initialRefs" by (simp add: initialRefs_def)
  moreover have "render initialRefs = ListView (StudentsArray [])"
    by (simp add: render_def initialRefs_def truthyString_def)
  ultimately show ?thesis by simp
qed

text \<open>
  C7, as the page behaves. The page is created with \<open>loading = false\<close>, no error and no
  students, and renders the empty list; the mount hook then sets \<open>loading\<close> and issues the
  fetch, and in that state the page renders the loading indicator only. After an empty
  array the page renders the empty list, after a rejected request the error message of
  \<open>fetchStudents\<close>, and any non-empty message as it is. In every reachable state the
  refs exclude each other: while \<open>loading\<close> is set there is no error and no student, an
  error is a non-empty message and comes without students, and the page renders the
  loading indicator, the error or the list according to exactly these cases.
\<close>

theorem C7_view_states:
  "initialRefs = \<lparr> students = StudentsArray [], loading = False, error = None \<rparr> \<and>
   render initialRefs = ListView (StudentsArray []) \<and>
   onMounted_begin initialRefs
     = \<lparr> students = StudentsArray [], loading = True, error = None \<rparr> \<and>
   render (onMounted_begin initialRefs) = LoadingView \<and>
   render (onMounted_resume (onMounted_begin initialRefs) (fetchStudents (Resolved [])))
     = ListView (StudentsArray []) \<and>
   render (onMounted_resume (onMounted_begin initialRefs) (fetchStudents (Rejected e)))
     = ErrorView (errorMessage e) \<and>
   (m \<noteq> [] \<longrightarrow>
      render (onMounted_resume (onMounted_begin initialRefs) (Returned (ErrorObject True m)))
        = ErrorView m) \<and>
   (reachable s \<longrightarrow>
      (loading s \<longrightarrow> error s = None \<and> students s = StudentsArray []) \<and>
      (error s \<noteq> None \<longrightarrow>
         \<not> loading s \<and> truthyString (error s) \<and> students s = StudentsArray []) \<and>
      (render s = LoadingView) = loading s \<and>
      (\<exists>m. render s = ErrorView m) = (\<not> loading s \<and> error s \<noteq> None) \<and>
      (\<exists>r. render s = ListView r) = (\<not> loading s \<and> error s = None))"
proof -
  have start: "initialRefs = \<lparr> students = StudentsArray [], loading = False, error = None \<rparr>"
    by (simp add: initialRefs_def)
  have start_view: "render initialRefs = ListView (StudentsArray [])"
    by (simp add: render_def initialRefs_def truthyString_def)
  have hook: "onMounted_begin initialRefs
                = \<lparr> students = StudentsArray [], loading = True, error = None \<rparr>"
    by (simp add: onMounted_begin_def initialRefs_def)
  have mounted: "render (onMounted_begin initialRefs) = LoadingView"
    by (simp add: render_def onMounted_begin_def)
  have empty: "render (onMounted_resume (onMounted_begin initialRefs)
                  (fetchStudents (Resolved []))) = ListView (StudentsArray [])"
    by (simp add: resume_Resolved render_def onMounted_begin_def initialRefs_def
        truthyString_def transform_def)
  have failed: "render (onMounted_resume (onMounted_begin initialRefs)
                   (fetchStudents (Rejected e))) = ErrorView (errorMessage e)"
    by (simp add: resume_Rejected render_def truthyString_def errorMessage_not_empty)
  have verbatim: "render (onMounted_resume (onMounted_begin initialRefs)
                     (Returned (ErrorObject True m))) = ErrorView m" if "m \<noteq> []"
    using that
    by (simp add: onMounted_resume_def result_error_def result_message_def truthy_def
        render_def truthyString_def)
  have exclusive:
    "(loading s \<longrightarrow> error s = None \<and> students s = StudentsArray []) \<and>
     (error s \<noteq> None \<longrightarrow>
        \<not> loading s \<and> truthyString (error s) \<and> students s = StudentsArray []) \<and>
     (render s = LoadingView) = loading s \<and>
     (\<exists>m. render s = ErrorView m) = (\<not> loading s \<and> error s \<noteq> None) \<and>
     (\<exists>r. render s = ListView r) = (\<not> loading s \<and> error s = None)"
    if r: "reachable s"
  proof -
    note refs = reachable_refs [OF r]
    have "(render s = LoadingView) = loading s"
      by (simp add: render_def)
    moreover have "(\<exists>m. render s = ErrorView m) = (\<not> loading s \<and> error s \<noteq> None)"
      using refs by (auto simp: render_def truthyString_def split: option.splits)
    moreover have "(\<exists>r. render s = ListView r) = (\<not> loading s \<and> error s = None)"
      using refs by (auto simp: render_def truthyString_def split: option.splits)
    ultimately show ?thesis using refs by blast
  qed
  from start start_view hook mounted empty failed verbatim exclusive show ?thesis by blast
qed

text \<open>
  C7 at the start state, at the state in which the fetch is pending, and at the mocked
  server error.
\<close>

theorem C7_view_states_witness:
  "render initialRefs = ListView (StudentsArray []) \<and>
   reachable (onMounted_begin initialRefs) \<and>
   loading (onMounted_begin initialRefs) \<and>
   error (onMounted_begin initialRefs) = None \<and>
   students (onMounted_begin initialRefs) = StudentsArray [] \<and>
   render (onMounted_begin initialRefs) = LoadingView \<and>
   render (onMounted_resume (onMounted_begin initialRefs) (fetchStudents (Rejected serverError)))
     = ErrorView ''Server error: 404'' \<and>
   ''Not found'' \<noteq> [] \<and>
   render (onMounted_resume (onMounted_begin initialRefs)
     (Returned (ErrorObject True ''Not found''))) = ErrorView ''Not found''"
proof -
  have r: "reachable (onMounted_begin initialRefs)" by (rule reachable.pending)
  have l: "loading (onMounted_begin initialRefs)" by (simp add: onMounted_begin_def)
  have m: "errorMessage serverError = ''Server error: 404''"
    by (simp add: errorMessage_def serverError_def toString_404)
  have ne: "''Not found'' \<noteq> []" by simp
  show ?thesis
    using C7_view_states [of serverError "''Not found''" "onMounted_begin initialRefs"] r l ne
    unfolding m by blast
qed

text \<open>
  C9. A successful outcome is an array, which has no \<open>error\<close> property, so the check
  \<open>result.error\<close> of the page is falsy (also for the empty array) and the page stores the
  array; a failed outcome is the object whose \<open>error\<close> is \<open>true\<close> and whose message is not
  empty, so the check is truthy and the page stores the message.
\<close>

theorem C9_outcomes_discriminated:
  "fetchStudents (Resolved users) = Returned (StudentsArray (transform users)) \<and>
   result_error (StudentsArray (transform users)) = None \<and>
   \<not> truthy (result_error (StudentsArray (transform users))) \<and>
   \<not> truthy (result_error (StudentsArray [])) \<and>
   onMounted_resume s (fetchStudents (Resolved users))
     = s\<lparr> students := StudentsArray (transform users), loading := False \<rparr> \<and>
   fetchStudents (Rejected e) = Returned (ErrorObject True (errorMessage e)) \<and>
   result_error (ErrorObject True (errorMessage e)) = Some True \<and>
   truthy (result_error (ErrorObject True (errorMessage e))) \<and>
   errorMessage e \<noteq> [] \<and>
   onMounted_resume s (fetchStudents (Rejected e))
     = s\<lparr> error := Some (errorMessage e), loading := False \<rparr>"
  by (simp add: fetchStudents_Resolved fetchStudents_Rejected onMounted_resume_def
      result_error_def result_message_def truthy_def errorMessage_not_empty)

end
